theory Spec2Isabelle
  imports Complex_Main "HOL-Library.Word"
begin

section \<open>Depth-based parallax generator: \<open>scripts/depth_parallax.py\<close>\<close>

text \<open>
  The script turns one still image into a short parallax video. The development below
  embeds the arithmetic and control flow of \<open>estimate_depth\<close>, \<open>create_layer_masks\<close>,
  \<open>ease_in_out_sine\<close>, \<open>generate_parallax_video\<close> and \<open>main\<close>.

  Conventions of the embedding:
  \<^item> Python \<open>float\<close> values are idealised as \<^typ>\<open>real\<close>; the literals \<open>0.5\<close>,
    \<open>1.5\<close>, \<open>0.15\<close>, \<open>1.1\<close> and \<open>1e-8\<close> are the corresponding rationals.
  \<^item> Python \<open>int\<close> values are \<^typ>\<open>int\<close>; \<open>//\<close> is \<open>div\<close> and \<open>%\<close> is \<open>mod\<close>
    (both floor-based, as in Python).
  \<^item> Option strings (\<open>direction\<close>, \<open>intensity\<close>, \<open>zoom\<close>) stay strings, so that the
    fall-through branches of the source are part of the model.
\<close>

subsection \<open>Exceptions and numeric helpers\<close>

text \<open>The exceptions that the modelled code paths can raise, each with its message.\<close>

datatype error =
    ValueError string
  | AttributeError string
  | JSONDecodeError string
  | RuntimeError string

text \<open>\<open>str(e)\<close>\<close>

fun str :: "error \<Rightarrow> string" where
  "str (ValueError msg) = msg"
| "str (AttributeError msg) = msg"
| "str (JSONDecodeError msg) = msg"
| "str (RuntimeError msg) = msg"

text \<open>Python's \<open>int(x)\<close> on a float truncates towards zero.\<close>

definition py_int :: "real \<Rightarrow> int" where
  "py_int x = (if 0 \<le> x then \<lfloor>x\<rfloor> else \<lceil>x\<rceil>)"

subsection \<open>Easing (\<open>ease_in_out_sine\<close>, lines 101--103)\<close>

definition ease_in_out_sine :: "real \<Rightarrow> real" where
  "ease_in_out_sine t = (1 - cos (t * pi)) / 2"

subsection \<open>Movement parameters (lines 183--193, 230--249)\<close>

text \<open>\<open>{"subtle": 0.5, "normal": 1.0, "dramatic": 1.5}.get(intensity, 1.0)\<close>\<close>

definition intensity_mult :: "string \<Rightarrow> real" where
  "intensity_mult intensity =
     (if intensity = ''subtle'' then 0.5
      else if intensity = ''normal'' then 1.0
      else if intensity = ''dramatic'' then 1.5
      else 1.0)"

definition bg_speed :: "string \<Rightarrow> real" where
  "bg_speed intensity = 15 * intensity_mult intensity"

definition fg_speed :: "string \<Rightarrow> real" where
  "fg_speed intensity = 40 * intensity_mult intensity"

definition pad_x :: "string \<Rightarrow> int" where
  "pad_x intensity = py_int (max (fg_speed intensity) (bg_speed intensity) * 3)"

definition pad_y :: "string \<Rightarrow> int" where
  "pad_y intensity = py_int (max (fg_speed intensity) (bg_speed intensity) * 3)"

definition direction_vector :: "string \<Rightarrow> int \<times> int" where
  "direction_vector direction =
     (if direction = ''left'' then (-1, 0)
      else if direction = ''right'' then (1, 0)
      else if direction = ''up'' then (0, -1)
      else if direction = ''down'' then (0, 1)
      else (0, 0))"

definition zoom_amount :: "string \<Rightarrow> real" where
  "zoom_amount intensity = 0.15 * intensity_mult intensity"

text \<open>The pair \<open>(zoom_start, zoom_end)\<close>.\<close>

definition zoom_range :: "string \<Rightarrow> string \<Rightarrow> real \<times> real" where
  "zoom_range zoom intensity =
     (if zoom = ''in'' then (1.0, 1.0 + zoom_amount intensity)
      else if zoom = ''out'' then (1.0 + zoom_amount intensity, 1.0)
      else (1.0, 1.0))"

text \<open>\<open>total_frames = int(duration * fps)\<close>\<close>

definition total_frames :: "real \<Rightarrow> int \<Rightarrow> int" where
  "total_frames duration fps = py_int (duration * real_of_int fps)"

subsection \<open>Per-frame motion (loop body, lines 259--273)\<close>

record motion =
  current_zoom :: real
  bg_offset_x :: int
  bg_offset_y :: int
  fg_offset_x :: int
  fg_offset_y :: int

text \<open>\<open>t = frame_idx / max(total_frames - 1, 1)\<close> followed by the easing.\<close>

definition eased_t :: "int \<Rightarrow> int \<Rightarrow> real" where
  "eased_t n frame_idx =
     ease_in_out_sine (real_of_int frame_idx / real_of_int (max (n - 1) 1))"

definition frame_motion :: "string \<Rightarrow> string \<Rightarrow> string \<Rightarrow> int \<Rightarrow> int \<Rightarrow> motion" where
  "frame_motion direction intensity zoom n frame_idx =
     (let (dx, dy) = direction_vector direction;
          (zoom_start, zoom_end) = zoom_range zoom intensity;
          e = eased_t n frame_idx
      in \<lparr> current_zoom = zoom_start + (zoom_end - zoom_start) * e,
           bg_offset_x = py_int (real_of_int dx * bg_speed intensity * e),
           bg_offset_y = py_int (real_of_int dy * bg_speed intensity * e),
           fg_offset_x = py_int (real_of_int dx * fg_speed intensity * e),
           fg_offset_y = py_int (real_of_int dy * fg_speed intensity * e) \<rparr>)"

subsection \<open>Output dimensions (lines 124--129)\<close>

text \<open>
  \<open>width = orig_width - (orig_width % 2)\<close>, and the same for the height. The size of
  an opened image is a pair of natural numbers.
\<close>

definition width :: "nat \<Rightarrow> int" where
  "width orig_width = int orig_width - int orig_width mod 2"

definition height :: "nat \<Rightarrow> int" where
  "height orig_height = int orig_height - int orig_height mod 2"

subsection \<open>Canvas dimensions (lines 190--228)\<close>

text \<open>
  \<open>cv2.copyMakeBorder\<close> returns an array whose shape is the input's shape plus the four
  margins; seam blending keeps the shape. The canvas is then resized to
  \<open>int(padded * bg_scale)\<close> in each axis.
\<close>

definition padded_w :: "int \<Rightarrow> string \<Rightarrow> int" where
  "padded_w w intensity = w + pad_x intensity + pad_x intensity"

definition padded_h :: "int \<Rightarrow> string \<Rightarrow> int" where
  "padded_h h intensity = h + pad_y intensity + pad_y intensity"

definition bg_scale :: real where
  "bg_scale = 1.1"

definition bg_scaled_w :: "int \<Rightarrow> string \<Rightarrow> int" where
  "bg_scaled_w w intensity = py_int (real_of_int (padded_w w intensity) * bg_scale)"

definition bg_scaled_h :: "int \<Rightarrow> string \<Rightarrow> int" where
  "bg_scaled_h h intensity = py_int (real_of_int (padded_h h intensity) * bg_scale)"

definition bg_center_offset_x :: "int \<Rightarrow> string \<Rightarrow> int" where
  "bg_center_offset_x w intensity = (bg_scaled_w w intensity - w) div 2"

definition bg_center_offset_y :: "int \<Rightarrow> string \<Rightarrow> int" where
  "bg_center_offset_y h intensity = (bg_scaled_h h intensity - h) div 2"

subsection \<open>Frame renderer: crop origin (lines 275--282)\<close>

text \<open>The pair \<open>(crop_x, crop_y)\<close> as computed on lines 277--278, before the clamp.\<close>

definition crop_unclamped :: "int \<Rightarrow> int \<Rightarrow> string \<Rightarrow> motion \<Rightarrow> int \<times> int" where
  "crop_unclamped w h intensity m =
     (bg_center_offset_x w intensity - bg_offset_x m,
      bg_center_offset_y h intensity - bg_offset_y m)"

text \<open>The same pair after lines 281--282.\<close>

definition crop_clamped :: "int \<Rightarrow> int \<Rightarrow> string \<Rightarrow> motion \<Rightarrow> int \<times> int" where
  "crop_clamped w h intensity m =
     (let (crop_x, crop_y) = crop_unclamped w h intensity m
      in (max 0 (min crop_x (bg_scaled_w w intensity - w)),
          max 0 (min crop_y (bg_scaled_h h intensity - h))))"

subsection \<open>Frame renderer: image sizes (lines 284--301)\<close>

text \<open>
  Only the size of each PIL image is tracked. \<open>Image.crop((l, t, r, b))\<close> returns an image
  of size \<open>(r - l, b - t)\<close>; \<open>Image.resize(size)\<close> returns an image of the requested size
  and raises \<open>ValueError\<close> when a requested dimension is below 1; \<open>convert\<close>, \<open>copy\<close> and
  \<open>paste\<close> keep the size.
\<close>

definition pil_crop :: "int \<times> int \<times> int \<times> int \<Rightarrow> int \<times> int" where
  "pil_crop box = (case box of (l, t, r, b) \<Rightarrow> (r - l, b - t))"

definition pil_resize :: "int \<times> int \<Rightarrow> error + int \<times> int" where
  "pil_resize sz =
     (if fst sz < 1 \<or> snd sz < 1
      then Inl (ValueError ''height and width must be > 0'')
      else Inr sz)"

text \<open>
  The geometry of the zoom step: the size of the rescaled frame and the box cropped out
  of it (lines 293--299).
\<close>

definition zoomed_size :: "int \<Rightarrow> int \<Rightarrow> motion \<Rightarrow> int \<times> int" where
  "zoomed_size w h m =
     (py_int (real_of_int w * current_zoom m), py_int (real_of_int h * current_zoom m))"

definition zoom_box :: "int \<Rightarrow> int \<Rightarrow> motion \<Rightarrow> int \<times> int \<times> int \<times> int" where
  "zoom_box w h m =
     (let (zoomed_w, zoomed_h) = zoomed_size w h m;
          left = (zoomed_w - w) div 2;
          top = (zoomed_h - h) div 2
      in (left, top, left + w, top + h))"

text \<open>The size of the frame that is saved for one loop iteration.\<close>

definition frame_size :: "int \<Rightarrow> int \<Rightarrow> string \<Rightarrow> motion \<Rightarrow> error + int \<times> int" where
  "frame_size w h intensity m =
     (let (crop_x, crop_y) = crop_clamped w h intensity m;
          frame = pil_crop (crop_x, crop_y, crop_x + w, crop_y + h)
      in if current_zoom m \<noteq> 1.0
         then (case pil_resize (zoomed_size w h m) of
                 Inl e \<Rightarrow> Inl e
               | Inr frame_zoomed \<Rightarrow> Inr (pil_crop (zoom_box w h m)))
         else Inr frame)"

subsection \<open>Depth normaliser (\<open>estimate_depth\<close>, lines 35--47)\<close>




subsection \<open>Layer masks (\<open>create_layer_masks\<close>, lines 49--72)\<close>

text \<open>
  \<open>np.linspace(0, 1, num)\<close>: \<open>num\<close> evenly spaced samples \<open>i * (1 / (num - 1))\<close>, the last
  one set to the end point 1 when \<open>num > 1\<close>; a negative \<open>num\<close> raises \<open>ValueError\<close>.
\<close>

definition linspace01 :: "int \<Rightarrow> error + real list" where
  "linspace01 num =
     (if num < 0 then Inl (ValueError ''Number of samples must be non-negative'')
      else Inr (map (\<lambda>i. if 1 < num \<and> int i = num - 1 then 1
                          else real i * (1 / real_of_int (num - 1)))
                [0..<nat num]))"

text \<open>The mask of layer \<open>i\<close>: one comparison per pixel, cast to \<open>float32\<close>.\<close>

definition layer_mask :: "real list list \<Rightarrow> int \<Rightarrow> real list \<Rightarrow> nat \<Rightarrow> real list list" where
  "layer_mask depth_map num_layers thresholds i =
     (let low = thresholds ! i;
          high = thresholds ! (i + 1)
      in if int i = num_layers - 1
         then map (map (\<lambda>d. if low \<le> d \<and> d \<le> high then 1 else 0)) depth_map
         else map (map (\<lambda>d. if low \<le> d \<and> d < high then 1 else 0)) depth_map)"

definition create_layer_masks :: "real list list \<Rightarrow> int \<Rightarrow> error + real list list list" where
  "create_layer_masks depth_map num_layers =
     (case linspace01 (num_layers + 1) of
        Inl e \<Rightarrow> Inl e
      | Inr thresholds \<Rightarrow>
          Inr (map (layer_mask depth_map num_layers thresholds) [0..<nat num_layers]))"

text \<open>
  For the statement of the partition property only (it is not part of the source): the
  index of the layer that a depth value in \<open>[0, 1]\<close> belongs to, among \<open>N\<close> layers.
\<close>

definition layer_of :: "nat \<Rightarrow> real \<Rightarrow> nat" where
  "layer_of N d = (if d = 1 then N - 1 else nat \<lfloor>d * real N\<rfloor>)"

subsection \<open>Inpainting mask (lines 157, 172--175)\<close>

text \<open>
  A \<open>uint8\<close> image is a list of rows of bytes. The hard mask \<open>fg_mask\<close> of line 157 is a
  comparison result cast to \<open>float32\<close>; line 173 scales it to 0/255 and casts to \<open>uint8\<close>.
\<close>

type_synonym image = "8 word list list"

definition mask_uint8 :: "bool list list \<Rightarrow> image" where
  "mask_uint8 fg_mask = map (map (\<lambda>b. if b then 255 else 0)) fg_mask"

text \<open>
  \<open>cv2.dilate\<close> with the kernel \<open>np.ones((7, 7))\<close> and the default anchor (the kernel
  centre): each output pixel is the maximum of the source over the 7 by 7 window around
  it. With the default border, positions outside the image do not take part in the
  maximum. Rows \<open>r - 3 .. r + 3\<close> and columns \<open>c - 3 .. c + 3\<close> are intersected with the
  image; the subtraction on \<^typ>\<open>nat\<close> stops at 0, which is that intersection.
\<close>

definition window :: "image \<Rightarrow> nat \<Rightarrow> nat \<Rightarrow> 8 word list" where
  "window src r c =
     concat (map (\<lambda>r'. map (\<lambda>c'. src ! r' ! c')
                          [c - 3 ..< min (c + 4) (length (src ! r'))])
                 [r - 3 ..< min (r + 4) (length src)])"

definition dilate_pixel :: "image \<Rightarrow> nat \<Rightarrow> nat \<Rightarrow> 8 word" where
  "dilate_pixel src r c = fold max (window src r c) 0"

definition dilate_once :: "image \<Rightarrow> image" where
  "dilate_once src =
     map (\<lambda>r. map (\<lambda>c. dilate_pixel src r c) [0..<length (src ! r)]) [0..<length src]"

text \<open>\<open>iterations\<close> applications of the single dilation.\<close>

definition dilate :: "image \<Rightarrow> nat \<Rightarrow> image" where
  "dilate src iterations = (dilate_once ^^ iterations) src"

definition inpaint_mask :: "bool list list \<Rightarrow> image" where
  "inpaint_mask fg_mask = dilate (mask_uint8 fg_mask) 4"

subsection \<open>Process entry point (\<open>main\<close>, lines 336--370)\<close>

text \<open>
  Parsed JSON values. \<open>print(json.dumps(v))\<close> is modelled as appending the value \<open>v\<close> to
  the lines of standard output.
\<close>

datatype json =
    JNull
  | JBool bool
  | JNum real
  | JStr string
  | JArr "json list"
  | JObj "(string \<times> json) list"

record outcome =
  stdout :: "json list"
  exit_code :: int

text \<open>\<open>dict.get(key, default)\<close> on the entries of a parsed object.\<close>

definition get :: "(string \<times> json) list \<Rightarrow> string \<Rightarrow> json \<Rightarrow> json" where
  "get kv key dflt = (case map_of kv key of None \<Rightarrow> dflt | Some v \<Rightarrow> v)"

text \<open>
  An exception that reaches the top of the interpreter: the traceback goes to standard
  error, nothing is written to standard output, and the exit status is 1.
\<close>

definition uncaught :: "error \<Rightarrow> outcome" where
  "uncaught e = \<lparr> stdout = [], exit_code = 1 \<rparr>"

text \<open>
  \<open>main\<close> over the argument vector. Its two collaborators are parameters: \<open>loads\<close> is
  \<open>json.loads\<close> of the standard library (it raises \<open>JSONDecodeError\<close> on text that is not
  JSON), and \<open>generate\<close> stands for the call of \<open>generate_parallax_video\<close>, which touches
  the file system, the depth model and the encoder and writes to standard error only.
  A parsed value that is not an object has no \<open>get\<close> attribute.
\<close>

definition main ::
  "(string \<Rightarrow> error + json) \<Rightarrow>
   (string \<Rightarrow> string \<Rightarrow> json \<Rightarrow> json \<Rightarrow> json \<Rightarrow> json \<Rightarrow> json \<Rightarrow> json \<Rightarrow> error + string) \<Rightarrow>
   string list \<Rightarrow> outcome" where
  "main loads generate argv =
     (if length argv < 3 then \<lparr> stdout = [], exit_code = 1 \<rparr>
      else
        let input_path = argv ! 1;
            output_path = argv ! 2
        in case (if length argv > 3 then loads (argv ! 3) else Inr (JObj [])) of
             Inl e \<Rightarrow> uncaught e
           | Inr (JObj options) \<Rightarrow>
               (case generate input_path output_path
                       (get options ''direction'' (JStr ''right''))
                       (get options ''intensity'' (JStr ''normal''))
                       (get options ''duration'' (JNum 5.0))
                       (get options ''fps'' (JNum 24))
                       (get options ''layerCount'' (JNum 3))
                       (get options ''zoom'' (JStr ''none'')) of
                  Inr out \<Rightarrow>
                    \<lparr> stdout = [JObj [(''success'', JBool True), (''output'', JStr output_path)]],
                      exit_code = 0 \<rparr>
                | Inl e \<Rightarrow>
                    \<lparr> stdout = [JObj [(''success'', JBool False), (''error'', JStr (str e))]],
                      exit_code = 1 \<rparr>)
           | Inr _ \<Rightarrow> uncaught (AttributeError ''object has no attribute get''))"

section \<open>Properties of the motion schedule\<close>

lemma py_int_0 [simp]: "py_int 0 = 0"
  by (simp add: py_int_def)

lemma py_int_mono:
  assumes "x \<le> y"
  shows "py_int x \<le> py_int y"
proof (cases "0 \<le> x")
  case True
  with assms show ?thesis
    by (simp add: py_int_def floor_mono)
next
  case neg: False
  show ?thesis
  proof (cases "0 \<le> y")
    case True
    have "\<lceil>x\<rceil> \<le> 0" using neg by (simp add: ceiling_le_zero)
    moreover have "0 \<le> \<lfloor>y\<rfloor>" using True by simp
    moreover have "py_int x = \<lceil>x\<rceil>" "py_int y = \<lfloor>y\<rfloor>"
      using neg True by (simp_all add: py_int_def)
    ultimately show ?thesis by linarith
  next
    case False
    with neg assms show ?thesis
      by (simp add: py_int_def ceiling_mono)
  qed
qed

lemma py_int_abs: "\<bar>py_int x\<bar> = \<lfloor>\<bar>x\<bar>\<rfloor>"
proof (cases "0 \<le> x")
  case True
  then show ?thesis by (simp add: py_int_def)
next
  case False
  then have "\<lceil>x\<rceil> \<le> 0" by (simp add: ceiling_le_zero)
  with False show ?thesis
    by (simp add: py_int_def ceiling_def)
qed

lemma ease_0 [simp]: "ease_in_out_sine 0 = 0"
  by (simp add: ease_in_out_sine_def)

lemma ease_1 [simp]: "ease_in_out_sine 1 = 1"
  by (simp add: ease_in_out_sine_def)

lemma ease_range: "0 \<le> ease_in_out_sine t \<and> ease_in_out_sine t \<le> 1"
  using cos_le_one [of "t * pi"] cos_ge_minus_one [of "t * pi"]
  by (simp add: ease_in_out_sine_def)

lemma ease_mono:
  assumes "0 \<le> s" "s \<le> t" "t \<le> 1"
  shows "ease_in_out_sine s \<le> ease_in_out_sine t"
proof -
  have "0 \<le> s * pi" "s * pi \<le> t * pi" "t * pi \<le> pi"
    using assms by (simp_all add: mult_left_le_one_le)
  then have "cos (t * pi) \<le> cos (s * pi)"
    by (rule cos_monotone_0_pi_le)
  then show ?thesis
    by (simp add: ease_in_out_sine_def)
qed

lemma ease_strict_mono:
  assumes "0 \<le> s" "s < t" "t \<le> 1"
  shows "ease_in_out_sine s < ease_in_out_sine t"
proof -
  have "0 \<le> s * pi" "s * pi < t * pi" "t * pi \<le> pi"
    using assms by (simp_all add: mult_left_le_one_le)
  then have "cos (t * pi) < cos (s * pi)"
    by (rule cos_monotone_0_pi)
  then show ?thesis
    by (simp add: ease_in_out_sine_def)
qed

lemma eased_t_0 [simp]: "eased_t n 0 = 0"
  by (simp add: eased_t_def)

lemma eased_t_range: "0 \<le> eased_t n i \<and> eased_t n i \<le> 1"
  unfolding eased_t_def by (rule ease_range)

lemma eased_mono:
  assumes "0 \<le> j" "j \<le> k" "k < n"
  shows "eased_t n j \<le> eased_t n k"
proof -
  have n: "0 < real_of_int (max (n - 1) 1)" by simp
  have "real_of_int k \<le> real_of_int (max (n - 1) 1)" using assms by simp
  then have "real_of_int k / real_of_int (max (n - 1) 1) \<le> 1"
    using n by (simp add: divide_le_eq)
  moreover have "real_of_int j / real_of_int (max (n - 1) 1)
                   \<le> real_of_int k / real_of_int (max (n - 1) 1)"
    using assms n by (simp add: divide_right_mono)
  moreover have "0 \<le> real_of_int j / real_of_int (max (n - 1) 1)"
    using assms n by simp
  ultimately show ?thesis
    unfolding eased_t_def by (intro ease_mono)
qed

lemma eased_strict_mono:
  assumes "0 \<le> j" "j < k" "k < n"
  shows "eased_t n j < eased_t n k"
proof -
  have n: "0 < real_of_int (max (n - 1) 1)" by simp
  have "real_of_int k \<le> real_of_int (max (n - 1) 1)" using assms by simp
  then have "real_of_int k / real_of_int (max (n - 1) 1) \<le> 1"
    using n by (simp add: divide_le_eq)
  moreover have "real_of_int j / real_of_int (max (n - 1) 1)
                   < real_of_int k / real_of_int (max (n - 1) 1)"
    using assms n by (simp add: divide_strict_right_mono)
  moreover have "0 \<le> real_of_int j / real_of_int (max (n - 1) 1)"
    using assms n by simp
  ultimately show ?thesis
    unfolding eased_t_def by (intro ease_strict_mono)
qed

subsection \<open>Parameters\<close>

lemma speed_bounds:
  "0 \<le> bg_speed i" "bg_speed i \<le> 45/2" "0 \<le> fg_speed i" "fg_speed i \<le> 60"
  by (simp_all add: bg_speed_def fg_speed_def intensity_mult_def)

lemma zoom_amount_pos: "0 < zoom_amount i"
  by (simp add: zoom_amount_def intensity_mult_def)

lemma dv_fst: "fst (direction_vector d) \<in> {-1, 0, 1}"
  by (simp add: direction_vector_def)

lemma dv_snd: "snd (direction_vector d) \<in> {-1, 0, 1}"
  by (simp add: direction_vector_def)

lemma pad_eq:
  "real_of_int (pad_x i) = 3 * max (fg_speed i) (bg_speed i)"
  "real_of_int (pad_y i) = 3 * max (fg_speed i) (bg_speed i)"
  by (simp_all add: pad_x_def pad_y_def fg_speed_def bg_speed_def intensity_mult_def py_int_def)

lemma pad_ge: "60 \<le> pad_x i" "60 \<le> pad_y i"
  by (simp_all add: pad_x_def pad_y_def fg_speed_def bg_speed_def intensity_mult_def py_int_def)

lemma width_nonneg: "0 \<le> width ow"
  unfolding width_def by presburger

lemma height_nonneg: "0 \<le> height oh"
  unfolding height_def by presburger

subsection \<open>The fields of one frame's motion\<close>

lemma fm_sel:
  "current_zoom (frame_motion d i z n k) =
     fst (zoom_range z i) + (snd (zoom_range z i) - fst (zoom_range z i)) * eased_t n k"
  "bg_offset_x (frame_motion d i z n k) =
     py_int (real_of_int (fst (direction_vector d)) * bg_speed i * eased_t n k)"
  "bg_offset_y (frame_motion d i z n k) =
     py_int (real_of_int (snd (direction_vector d)) * bg_speed i * eased_t n k)"
  "fg_offset_x (frame_motion d i z n k) =
     py_int (real_of_int (fst (direction_vector d)) * fg_speed i * eased_t n k)"
  "fg_offset_y (frame_motion d i z n k) =
     py_int (real_of_int (snd (direction_vector d)) * fg_speed i * eased_t n k)"
  by (simp_all add: frame_motion_def Let_def split: prod.split)

lemma py_int_scaled_abs:
  assumes "0 \<le> s" "0 \<le> e" "d \<in> {-1, 0, 1}"
  shows "\<bar>py_int (real_of_int d * s * e)\<bar> = \<lfloor>\<bar>real_of_int d\<bar> * s * e\<rfloor>"
  using assms by (simp add: py_int_abs abs_mult)

lemma offset_abs_le:
  assumes "0 \<le> s" "0 \<le> e" "e \<le> 1" "d \<in> {-1, 0, 1}"
  shows "\<bar>py_int (real_of_int d * s * e)\<bar> \<le> \<lfloor>s\<rfloor>"
proof -
  have "\<bar>real_of_int d\<bar> * s * e \<le> 1 * s * 1"
    using assms by (intro mult_mono) auto
  then show ?thesis
    using assms by (simp add: py_int_scaled_abs floor_mono)
qed

lemma offset_abs_mono:
  assumes "0 \<le> s" "0 \<le> e" "e \<le> e'" "d \<in> {-1, 0, 1}"
  shows "\<bar>py_int (real_of_int d * s * e)\<bar> \<le> \<bar>py_int (real_of_int d * s * e')\<bar>"
proof -
  have "\<bar>real_of_int d\<bar> * s * e \<le> \<bar>real_of_int d\<bar> * s * e'"
    using assms by (intro mult_left_mono) auto
  then show ?thesis
    using assms by (simp add: py_int_scaled_abs floor_mono)
qed

lemma zoom_dev:
  "\<bar>current_zoom (frame_motion d i z n k) - 1\<bar> =
     (if z = ''in'' then zoom_amount i * eased_t n k
      else if z = ''out'' then zoom_amount i * (1 - eased_t n k)
      else 0)"
proof -
  have "0 \<le> zoom_amount i * eased_t n k" "0 \<le> zoom_amount i * (1 - eased_t n k)"
    using zoom_amount_pos[of i] eased_t_range[of n k] by simp_all
  then show ?thesis
    by (simp add: fm_sel zoom_range_def algebra_simps)
qed

lemma zoom_ge_1: "1 \<le> current_zoom (frame_motion d i z n k)"
proof -
  have "0 \<le> zoom_amount i * eased_t n k" "0 \<le> zoom_amount i * (1 - eased_t n k)"
    using zoom_amount_pos[of i] eased_t_range[of n k] by simp_all
  then show ?thesis
    by (simp add: fm_sel zoom_range_def algebra_simps)
qed

lemma bg_offset_bound:
  "\<bar>bg_offset_x (frame_motion d i z n k)\<bar> \<le> 22"
  "\<bar>bg_offset_y (frame_motion d i z n k)\<bar> \<le> 22"
proof -
  have "\<lfloor>bg_speed i\<rfloor> \<le> 22"
    using speed_bounds(2)[of i] by (simp add: floor_le_iff)
  moreover have "\<bar>bg_offset_x (frame_motion d i z n k)\<bar> \<le> \<lfloor>bg_speed i\<rfloor>"
    unfolding fm_sel using eased_t_range[of n k] speed_bounds(1)[of i] dv_fst[of d]
    by (intro offset_abs_le) auto
  moreover have "\<bar>bg_offset_y (frame_motion d i z n k)\<bar> \<le> \<lfloor>bg_speed i\<rfloor>"
    unfolding fm_sel using eased_t_range[of n k] speed_bounds(1)[of i] dv_snd[of d]
    by (intro offset_abs_le) auto
  ultimately show "\<bar>bg_offset_x (frame_motion d i z n k)\<bar> \<le> 22"
    "\<bar>bg_offset_y (frame_motion d i z n k)\<bar> \<le> 22"
    by linarith+
qed

subsection \<open>Canvas size\<close>

lemma scale_ge: "0 \<le> x \<Longrightarrow> x \<le> py_int (real_of_int x * bg_scale)"
  by (simp add: py_int_def bg_scale_def le_floor_iff)

lemma bg_scaled_w_ge: "0 \<le> w \<Longrightarrow> padded_w w i \<le> bg_scaled_w w i"
  unfolding bg_scaled_w_def using pad_ge(1)[of i]
  by (intro scale_ge) (simp add: padded_w_def)

lemma bg_scaled_h_ge: "0 \<le> h \<Longrightarrow> padded_h h i \<le> bg_scaled_h h i"
  unfolding bg_scaled_h_def using pad_ge(2)[of i]
  by (intro scale_ge) (simp add: padded_h_def)

lemma center_x_bounds:
  assumes "0 \<le> w"
  shows "60 \<le> bg_center_offset_x w i" "bg_center_offset_x w i + 60 \<le> bg_scaled_w w i - w"
  using bg_scaled_w_ge[OF assms, of i] pad_ge(1)[of i]
  unfolding bg_center_offset_x_def padded_w_def by linarith+

lemma center_y_bounds:
  assumes "0 \<le> h"
  shows "60 \<le> bg_center_offset_y h i" "bg_center_offset_y h i + 60 \<le> bg_scaled_h h i - h"
  using bg_scaled_h_ge[OF assms, of i] pad_ge(2)[of i]
  unfolding bg_center_offset_y_def padded_h_def by linarith+

lemma zoomed_ge:
  assumes "0 \<le> w" "1 \<le> c"
  shows "w \<le> py_int (real_of_int w * c)"
proof -
  have "real_of_int w * 1 \<le> real_of_int w * c"
    using assms by (intro mult_left_mono) auto
  then have "real_of_int w \<le> real_of_int w * c" by simp
  moreover have "0 \<le> real_of_int w * c" using assms by simp
  ultimately show ?thesis
    by (simp add: py_int_def le_floor_iff)
qed

section \<open>Claims about the motion schedule, the canvas and the frames\<close>

text \<open>
  Claim C2, as amended. At frame index 0 the background and foreground offsets are
  \<open>(0, 0)\<close> for every direction, intensity, zoom setting and frame count. The zoom scale
  at frame 0 is \<open>zoom_start\<close>: it is 1.0 for the zoom settings \<open>none\<close> and \<open>in\<close>, and
  \<open>1 + 0.15 * intensity_mult\<close> for the zoom setting \<open>out\<close>, which starts zoomed in and
  ends at 1.0.
\<close>

theorem frame_zero_rest_position:
  "frame_motion direction intensity zoom n 0 =
     \<lparr> current_zoom = (if zoom = ''out'' then 1 + 0.15 * intensity_mult intensity else 1),
       bg_offset_x = 0, bg_offset_y = 0, fg_offset_x = 0, fg_offset_y = 0 \<rparr>"
  by (simp add: frame_motion_def zoom_range_def zoom_amount_def split: prod.split)

theorem frame_zero_rest_position_witness:
  "frame_motion ''left'' ''subtle'' ''in'' 48 0 =
     \<lparr> current_zoom = 1, bg_offset_x = 0, bg_offset_y = 0, fg_offset_x = 0, fg_offset_y = 0 \<rparr>"
  using frame_zero_rest_position [of "''left''" "''subtle''" "''in''" 48] by simp

text \<open>
  Claim C2, as stated, fails for the zoom setting \<open>out\<close>: with direction \<open>right\<close>,
  intensity \<open>normal\<close> and 120 frames, the zoom scale at frame 0 is 1.15, not 1.0.
\<close>

theorem frame_zero_zoom_out_counterexample:
  "current_zoom (frame_motion ''right'' ''normal'' ''out'' 120 0) = 1.15
   \<and> current_zoom (frame_motion ''right'' ''normal'' ''out'' 120 0) \<noteq> 1"
  by (simp add: frame_motion_def zoom_range_def zoom_amount_def intensity_mult_def
      split: prod.split)

text \<open>
  Claim C4. For every intensity and every source image, the canvas is at least as wide
  as the output width plus twice three times the larger layer speed, and at least as
  high as the output height plus the same margin. (It holds for the three supported
  intensity levels and for any other string, which the source treats as \<open>normal\<close>.)
\<close>

theorem canvas_covers_pan_margin:
  "real_of_int (width orig_width) + 2 * (3 * max (fg_speed intensity) (bg_speed intensity))
     \<le> real_of_int (bg_scaled_w (width orig_width) intensity)
   \<and> real_of_int (height orig_height) + 2 * (3 * max (fg_speed intensity) (bg_speed intensity))
     \<le> real_of_int (bg_scaled_h (height orig_height) intensity)"
proof -
  let ?w = "width orig_width" and ?h = "height orig_height"
  have "padded_w ?w intensity \<le> bg_scaled_w ?w intensity"
    by (rule bg_scaled_w_ge[OF width_nonneg])
  then have "real_of_int (padded_w ?w intensity) \<le> real_of_int (bg_scaled_w ?w intensity)"
    by linarith
  moreover have "real_of_int (padded_w ?w intensity)
                   = real_of_int ?w + 2 * (3 * max (fg_speed intensity) (bg_speed intensity))"
    using pad_eq(1)[of intensity] by (simp add: padded_w_def)
  moreover have "padded_h ?h intensity \<le> bg_scaled_h ?h intensity"
    by (rule bg_scaled_h_ge[OF height_nonneg])
  then have "real_of_int (padded_h ?h intensity) \<le> real_of_int (bg_scaled_h ?h intensity)"
    by linarith
  moreover have "real_of_int (padded_h ?h intensity)
                   = real_of_int ?h + 2 * (3 * max (fg_speed intensity) (bg_speed intensity))"
    using pad_eq(2)[of intensity] by (simp add: padded_h_def)
  ultimately show ?thesis by linarith
qed

text \<open>
  Claim C5. For every frame index, frame count, direction, intensity and zoom setting,
  the crop rectangle of lines 277--278 lies inside the canvas, and the clamp of lines
  281--282 returns the same coordinates.
\<close>

theorem crop_clamp_is_identity:
  "crop_clamped (width ow) (height oh) intensity (frame_motion direction intensity zoom n k)
     = crop_unclamped (width ow) (height oh) intensity (frame_motion direction intensity zoom n k)
   \<and> 0 \<le> fst (crop_unclamped (width ow) (height oh) intensity
                 (frame_motion direction intensity zoom n k))
   \<and> fst (crop_unclamped (width ow) (height oh) intensity
            (frame_motion direction intensity zoom n k)) + width ow
       \<le> bg_scaled_w (width ow) intensity
   \<and> 0 \<le> snd (crop_unclamped (width ow) (height oh) intensity
                 (frame_motion direction intensity zoom n k))
   \<and> snd (crop_unclamped (width ow) (height oh) intensity
            (frame_motion direction intensity zoom n k)) + height oh
       \<le> bg_scaled_h (height oh) intensity"
  using center_x_bounds[OF width_nonneg, of ow intensity]
    center_y_bounds[OF height_nonneg, of oh intensity]
    bg_offset_bound[of direction intensity zoom n k]
  by (auto simp: crop_clamped_def crop_unclamped_def)

text \<open>
  Claim C6, as amended. For frame indices \<open>0 \<le> j \<le> k < n\<close> and fixed settings, the
  eased progress and the four offset magnitudes at frame \<open>j\<close> are at most those at
  frame \<open>k\<close>. The zoom deviation
  \<open>|zoom_scale - 1|\<close> is non-decreasing for the zoom settings \<open>none\<close> and \<open>in\<close>, and
  non-increasing for the zoom setting \<open>out\<close>.
\<close>

theorem motion_monotone:
  assumes "0 \<le> j" "j \<le> k" "k < n"
  shows "eased_t n j \<le> eased_t n k
       \<and> \<bar>bg_offset_x (frame_motion d i z n j)\<bar> \<le> \<bar>bg_offset_x (frame_motion d i z n k)\<bar>
       \<and> \<bar>bg_offset_y (frame_motion d i z n j)\<bar> \<le> \<bar>bg_offset_y (frame_motion d i z n k)\<bar>
       \<and> \<bar>fg_offset_x (frame_motion d i z n j)\<bar> \<le> \<bar>fg_offset_x (frame_motion d i z n k)\<bar>
       \<and> \<bar>fg_offset_y (frame_motion d i z n j)\<bar> \<le> \<bar>fg_offset_y (frame_motion d i z n k)\<bar>
       \<and> (if z = ''out''
          then \<bar>current_zoom (frame_motion d i z n k) - 1\<bar>
                 \<le> \<bar>current_zoom (frame_motion d i z n j) - 1\<bar>
          else \<bar>current_zoom (frame_motion d i z n j) - 1\<bar>
                 \<le> \<bar>current_zoom (frame_motion d i z n k) - 1\<bar>)"
proof -
  note e = eased_mono[OF assms] eased_t_range[of n j]
  have "eased_t n j \<le> eased_t n k" by (rule e(1))
  moreover
  have "\<bar>bg_offset_x (frame_motion d i z n j)\<bar> \<le> \<bar>bg_offset_x (frame_motion d i z n k)\<bar>"
    unfolding fm_sel using e speed_bounds(1)[of i] dv_fst[of d]
    by (intro offset_abs_mono) auto
  moreover
  have "\<bar>bg_offset_y (frame_motion d i z n j)\<bar> \<le> \<bar>bg_offset_y (frame_motion d i z n k)\<bar>"
    unfolding fm_sel using e speed_bounds(1)[of i] dv_snd[of d]
    by (intro offset_abs_mono) auto
  moreover
  have "\<bar>fg_offset_x (frame_motion d i z n j)\<bar> \<le> \<bar>fg_offset_x (frame_motion d i z n k)\<bar>"
    unfolding fm_sel using e speed_bounds(3)[of i] dv_fst[of d]
    by (intro offset_abs_mono) auto
  moreover
  have "\<bar>fg_offset_y (frame_motion d i z n j)\<bar> \<le> \<bar>fg_offset_y (frame_motion d i z n k)\<bar>"
    unfolding fm_sel using e speed_bounds(3)[of i] dv_snd[of d]
    by (intro offset_abs_mono) auto
  moreover
  have "if z = ''out''
        then \<bar>current_zoom (frame_motion d i z n k) - 1\<bar>
               \<le> \<bar>current_zoom (frame_motion d i z n j) - 1\<bar>
        else \<bar>current_zoom (frame_motion d i z n j) - 1\<bar>
               \<le> \<bar>current_zoom (frame_motion d i z n k) - 1\<bar>"
    unfolding zoom_dev using e(1) zoom_amount_pos[of i]
    by (simp add: mult_left_mono)
  ultimately show ?thesis by blast
qed

theorem motion_monotone_witness:
  "(0::int) \<le> 0 \<and> (0::int) \<le> 1 \<and> (1::int) < 2
   \<and> \<bar>bg_offset_x (frame_motion ''left'' ''normal'' ''in'' 2 0)\<bar>
       \<le> \<bar>bg_offset_x (frame_motion ''left'' ''normal'' ''in'' 2 1)\<bar>
   \<and> \<bar>fg_offset_x (frame_motion ''left'' ''normal'' ''in'' 2 0)\<bar>
       \<le> \<bar>fg_offset_x (frame_motion ''left'' ''normal'' ''in'' 2 1)\<bar>
   \<and> \<bar>current_zoom (frame_motion ''left'' ''normal'' ''in'' 2 0) - 1\<bar>
       \<le> \<bar>current_zoom (frame_motion ''left'' ''normal'' ''in'' 2 1) - 1\<bar>"
  using motion_monotone [of 0 1 2 "''left''" "''normal''" "''in''"] by simp

text \<open>
  Claim C6, as stated, fails for the zoom setting \<open>out\<close>: with two frames at intensity
  \<open>normal\<close>, the zoom deviation is 0.15 at frame 0 and 0 at frame 1, so it decreases.
\<close>

theorem zoom_out_deviation_counterexample:
  "\<bar>current_zoom (frame_motion ''right'' ''normal'' ''out'' 2 0) - 1\<bar> = 0.15
   \<and> \<bar>current_zoom (frame_motion ''right'' ''normal'' ''out'' 2 1) - 1\<bar> = 0
   \<and> \<not> \<bar>current_zoom (frame_motion ''right'' ''normal'' ''out'' 2 0) - 1\<bar>
         \<le> \<bar>current_zoom (frame_motion ''right'' ''normal'' ''out'' 2 1) - 1\<bar>"
  by (simp add: frame_motion_def zoom_range_def zoom_amount_def intensity_mult_def eased_t_def
      split: prod.split)

text \<open>
  Claim C8. With zoom \<open>in\<close>, intensity \<open>dramatic\<close>, duration 2.0 and 24 frames per second
  the loop runs over 48 frames; the zoom scale is 1.0 at frame 0, 1.225 at frame 47, and
  strictly increasing in the frame index in between (for every direction).
\<close>

theorem zoom_in_dramatic_schedule:
  assumes "0 \<le> j" "j < k" "k < 48"
  shows "total_frames 2.0 24 = 48
       \<and> current_zoom (frame_motion d ''dramatic'' ''in'' (total_frames 2.0 24) 0) = 1
       \<and> current_zoom (frame_motion d ''dramatic'' ''in'' (total_frames 2.0 24) 47) = 1.225
       \<and> current_zoom (frame_motion d ''dramatic'' ''in'' (total_frames 2.0 24) j)
           < current_zoom (frame_motion d ''dramatic'' ''in'' (total_frames 2.0 24) k)"
proof -
  have n: "total_frames 2.0 24 = 48"
    by (simp add: total_frames_def py_int_def)
  have first: "current_zoom (frame_motion d ''dramatic'' ''in'' 48 0) = 1"
    by (simp add: fm_sel zoom_range_def)
  have last: "current_zoom (frame_motion d ''dramatic'' ''in'' 48 47) = 1.225"
    by (simp add: fm_sel zoom_range_def zoom_amount_def intensity_mult_def eased_t_def)
  have "eased_t 48 j < eased_t 48 k"
    using assms by (rule eased_strict_mono)
  then have "current_zoom (frame_motion d ''dramatic'' ''in'' 48 j)
               < current_zoom (frame_motion d ''dramatic'' ''in'' 48 k)"
    using zoom_amount_pos[of "''dramatic''"] by (simp add: fm_sel zoom_range_def)
  with n first last show ?thesis by simp
qed

theorem zoom_in_dramatic_schedule_witness:
  "(0::int) \<le> 0 \<and> (0::int) < 47 \<and> (47::int) < 48
   \<and> total_frames 2.0 24 = 48
   \<and> current_zoom (frame_motion ''right'' ''dramatic'' ''in'' (total_frames 2.0 24) 0)
       < current_zoom (frame_motion ''right'' ''dramatic'' ''in'' (total_frames 2.0 24) 47)"
  using zoom_in_dramatic_schedule [of 0 47 "''right''"] by auto

text \<open>
  Claim C10. For a source image of at least 2 by 2 pixels, the frame saved in every loop
  iteration has exactly the output dimensions (each source dimension rounded down to an
  even number), for every direction, intensity, zoom setting, frame count and frame
  index. The zoom scale is at least 1.0, so the rescaled frame is at least as large as
  the output and the box cropped out of it lies inside it. (A source dimension of 1 gives
  an output dimension of 0, for which the resize of line 140 raises before any frame.)
\<close>

theorem frame_has_output_dimensions:
  assumes "2 \<le> ow" "2 \<le> oh"
  shows "frame_size (width ow) (height oh) i (frame_motion d i z n k)
           = Inr (width ow, height oh)
       \<and> 1 \<le> current_zoom (frame_motion d i z n k)
       \<and> width ow \<le> fst (zoomed_size (width ow) (height oh) (frame_motion d i z n k))
       \<and> height oh \<le> snd (zoomed_size (width ow) (height oh) (frame_motion d i z n k))"
proof -
  let ?m = "frame_motion d i z n k" and ?w = "width ow" and ?h = "height oh"
  have pos: "1 \<le> ?w" "1 \<le> ?h"
    using assms unfolding width_def height_def by presburger+
  have z: "1 \<le> current_zoom ?m" by (rule zoom_ge_1)
  have ge: "?w \<le> fst (zoomed_size ?w ?h ?m)" "?h \<le> snd (zoomed_size ?w ?h ?m)"
    using pos z by (simp_all add: zoomed_size_def zoomed_ge)
  then have "pil_resize (zoomed_size ?w ?h ?m) = Inr (zoomed_size ?w ?h ?m)"
    using pos by (simp add: pil_resize_def)
  then have "frame_size ?w ?h i ?m = Inr (?w, ?h)"
    by (simp add: frame_size_def pil_crop_def zoom_box_def Let_def split: prod.split)
  with z ge show ?thesis by simp
qed

theorem frame_has_output_dimensions_witness:
  "(2::nat) \<le> 641 \<and> (2::nat) \<le> 480
   \<and> frame_size 640 480 ''dramatic'' (frame_motion ''up'' ''dramatic'' ''out'' 2 1)
       = Inr (640, 480)"
  using frame_has_output_dimensions [of 641 480 "''dramatic''" "''up''" "''out''" 2 1]
  by (simp add: width_def height_def)

section \<open>The depth normaliser\<close>











section \<open>The layer masks\<close>

lemma linspace01_Suc:
  assumes "1 \<le> N"
  shows "\<exists>thr. linspace01 (int N + 1) = Inr thr \<and> length thr = N + 1
           \<and> (\<forall>i \<le> N. thr ! i = real i / real N)"
proof -
  let ?thr = "map (\<lambda>i. if 1 < int N + 1 \<and> int i = int N + 1 - 1 then 1
                          else real i * (1 / real_of_int (int N + 1 - 1))) [0..<nat (int N + 1)]"
  have "linspace01 (int N + 1) = Inr ?thr"
    by (simp add: linspace01_def)
  moreover have "length ?thr = N + 1" by (simp add: nat_add_distrib)
  moreover have "?thr ! i = real i / real N" if "i \<le> N" for i
  proof -
    have "i < nat (int N + 1)" using that by linarith
    then have "?thr ! i = (if 1 < int N + 1 \<and> int i = int N + 1 - 1 then 1
                          else real i * (1 / real_of_int (int N + 1 - 1)))"
      by (simp del: upt_Suc)
    also have "\<dots> = real i / real N"
      using assms by auto
    finally show ?thesis .
  qed
  ultimately show ?thesis by blast
qed

lemma layer_of_less:
  assumes "1 \<le> N" "0 \<le> d" "d \<le> 1"
  shows "layer_of N d < N"
proof (cases "d = 1")
  case True
  with assms show ?thesis by (simp add: layer_of_def)
next
  case False
  with assms have "d < 1" by simp
  then have "d * real N < real N" using assms by simp
  then have "\<lfloor>d * real N\<rfloor> < int N" by (simp add: floor_less_iff)
  moreover have "0 \<le> \<lfloor>d * real N\<rfloor>" using assms by simp
  ultimately show ?thesis using False by (simp add: layer_of_def nat_less_iff)
qed

lemma inner_layer:
  assumes "1 \<le> N" "0 \<le> d" "d \<le> 1" "i + 1 < N"
  shows "(real i / real N \<le> d \<and> d < real (i + 1) / real N) \<longleftrightarrow> i = layer_of N d"
proof -
  have N: "0 < real N" using assms by simp
  have a: "(real i / real N \<le> d) \<longleftrightarrow> real i \<le> d * real N"
    using N by (simp add: pos_divide_le_eq)
  have b: "(d < real (i + 1) / real N) \<longleftrightarrow> d * real N < real i + 1"
    using N by (simp add: pos_less_divide_eq add.commute)
  have nn: "0 \<le> d * real N" using assms by simp
  have fl: "(real i \<le> d * real N \<and> d * real N < real i + 1) \<longleftrightarrow> \<lfloor>d * real N\<rfloor> = int i"
    by (simp add: floor_eq_iff)
  have c: "\<lfloor>d * real N\<rfloor> = int i \<longleftrightarrow> nat \<lfloor>d * real N\<rfloor> = i"
    using nn by (metis floor_mono floor_zero nat_int int_nat_eq)
  show ?thesis
  proof (cases "d = 1")
    case True
    then have "\<not> d < real (i + 1) / real N"
      using assms N by (simp add: pos_less_divide_eq)
    moreover have "i \<noteq> layer_of N d" using True assms by (simp add: layer_of_def)
    ultimately show ?thesis by simp
  next
    case False
    then have lo: "layer_of N d = nat \<lfloor>d * real N\<rfloor>" by (simp add: layer_of_def)
    have "(real i / real N \<le> d \<and> d < real (i + 1) / real N) \<longleftrightarrow> \<lfloor>d * real N\<rfloor> = int i"
      using a b fl by blast
    also have "\<dots> \<longleftrightarrow> nat \<lfloor>d * real N\<rfloor> = i" by (rule c)
    also have "\<dots> \<longleftrightarrow> i = layer_of N d" unfolding lo by (rule eq_commute)
    finally show ?thesis .
  qed
qed

lemma last_layer:
  assumes "1 \<le> N" "0 \<le> d" "d \<le> 1" "i + 1 = N"
  shows "(real i / real N \<le> d \<and> d \<le> real (i + 1) / real N) \<longleftrightarrow> i = layer_of N d"
proof -
  have N: "0 < real N" using assms by simp
  have a: "(real i / real N \<le> d) \<longleftrightarrow> real i \<le> d * real N"
    using N by (simp add: pos_divide_le_eq)
  have b: "d \<le> real (i + 1) / real N" using assms by simp
  have nn: "0 \<le> d * real N" using assms by simp
  show ?thesis
  proof (cases "d = 1")
    case True
    then show ?thesis using assms a by (auto simp: layer_of_def)
  next
    case False
    have rN: "real N = real i + 1" using assms(4)[symmetric] by simp
    have "d < 1" using False assms by simp
    then have "d * real N < 1 * real N" using N by (intro mult_strict_right_mono)
    then have lt: "d * real N < real i + 1" using rN by simp
    then have fl: "real i \<le> d * real N \<longleftrightarrow> \<lfloor>d * real N\<rfloor> = int i"
      by (simp add: floor_eq_iff)
    have c: "\<lfloor>d * real N\<rfloor> = int i \<longleftrightarrow> nat \<lfloor>d * real N\<rfloor> = i"
      using nn by (metis floor_mono floor_zero nat_int int_nat_eq)
    have lo: "layer_of N d = nat \<lfloor>d * real N\<rfloor>" using False by (simp add: layer_of_def)
    have "(real i / real N \<le> d \<and> d \<le> real (i + 1) / real N) \<longleftrightarrow> \<lfloor>d * real N\<rfloor> = int i"
      using a b fl by blast
    also have "\<dots> \<longleftrightarrow> nat \<lfloor>d * real N\<rfloor> = i" by (rule c)
    also have "\<dots> \<longleftrightarrow> i = layer_of N d" unfolding lo by (rule eq_commute)
    finally show ?thesis .
  qed
qed


lemma sum_list_one_hot:
  assumes "k < N"
  shows "sum_list ((replicate N (0::real))[k := 1]) = 1"
proof -
  have "(replicate N (0::real))[k := 1] = replicate k 0 @ 1 # replicate (N - Suc k) 0"
    using assms by (simp add: upd_conv_take_nth_drop)
  then show ?thesis by (simp add: sum_list_replicate)
qed

lemma layer_mask_pixel:
  assumes "r < length dm" "c < length (dm ! r)"
  shows "layer_mask dm n thr i ! r ! c =
           (if int i = n - 1
            then (if thr ! i \<le> dm ! r ! c \<and> dm ! r ! c \<le> thr ! (i + 1) then 1 else 0)
            else (if thr ! i \<le> dm ! r ! c \<and> dm ! r ! c < thr ! (i + 1) then 1 else 0))"
  using assms by (simp add: layer_mask_def Let_def)

lemma partition_core:
  assumes "1 \<le> N" "r < length depth_map" "c < length (depth_map ! r)"
    and "0 \<le> depth_map ! r ! c" "depth_map ! r ! c \<le> 1"
  shows "\<exists>masks k. create_layer_masks depth_map (int N) = Inr masks
           \<and> length masks = N
           \<and> k < N
           \<and> map (\<lambda>m. m ! r ! c) masks = (replicate N 0)[k := 1]
           \<and> sum_list (map (\<lambda>m. m ! r ! c) masks) = 1"
proof -
  define d where "d = depth_map ! r ! c"
  obtain thr where thr: "linspace01 (int N + 1) = Inr thr"
    and thr_nth: "\<And>i. i \<le> N \<Longrightarrow> thr ! i = real i / real N"
    using linspace01_Suc[OF assms(1)] by blast
  define masks where "masks = map (layer_mask depth_map (int N) thr) [0..<N]"
  define k where "k = layer_of N d"
  have res: "create_layer_masks depth_map (int N) = Inr masks"
    by (simp add: create_layer_masks_def thr masks_def)
  have len: "length masks = N" by (simp add: masks_def)
  have k: "k < N"
    unfolding k_def using assms(1,4,5) by (intro layer_of_less) (simp_all add: d_def)
  have px: "masks ! i ! r ! c = (if i = k then 1 else 0)" if "i < N" for i
  proof -
    have m: "masks ! i = layer_mask depth_map (int N) thr i"
      using that by (simp add: masks_def del: upt_Suc)
    have t: "thr ! i = real i / real N" "thr ! (i + 1) = real (i + 1) / real N"
      using that by (simp_all add: thr_nth)
    show ?thesis
    proof (cases "i + 1 = N")
      case True
      then have "int i = int N - 1" by linarith
      moreover have "(real i / real N \<le> d \<and> d \<le> real (i + 1) / real N) \<longleftrightarrow> i = k"
        unfolding k_def using assms(1,4,5) True by (intro last_layer) (simp_all add: d_def)
      ultimately show ?thesis
        unfolding m layer_mask_pixel[OF assms(2,3)] t d_def[symmetric] by simp
    next
      case False
      then have "int i \<noteq> int N - 1" "i + 1 < N" using that by linarith+
      moreover have "(real i / real N \<le> d \<and> d < real (i + 1) / real N) \<longleftrightarrow> i = k"
        unfolding k_def using assms(1,4,5) \<open>i + 1 < N\<close> by (intro inner_layer) (simp_all add: d_def)
      ultimately show ?thesis
        unfolding m layer_mask_pixel[OF assms(2,3)] t d_def[symmetric] by simp
    qed
  qed
  have vec: "map (\<lambda>m. m ! r ! c) masks = (replicate N 0)[k := 1]"
  proof (rule nth_equalityI)
    show "length (map (\<lambda>m. m ! r ! c) masks) = length ((replicate N (0::real))[k := 1])"
      by (simp add: len)
  next
    fix i assume "i < length (map (\<lambda>m. m ! r ! c) masks)"
    then have i: "i < N" by (simp add: len)
    then show "map (\<lambda>m. m ! r ! c) masks ! i = (replicate N 0)[k := 1] ! i"
      using px[OF i] len by (simp add: nth_list_update)
  qed
  have "sum_list (map (\<lambda>m. m ! r ! c) masks) = 1"
    unfolding vec using k by (rule sum_list_one_hot)
  with res len k vec show ?thesis by blast
qed

text \<open>
  Claim C9. For a layer count \<open>n \<ge> 1\<close> and a pixel whose depth value lies in \<open>[0, 1]\<close>,
  \<open>create_layer_masks\<close> returns \<open>n\<close> masks, and the values of that pixel across the masks
  form a one-hot vector: 1 in exactly one mask (index \<open>k\<close>) and 0 in all the others, so
  they sum to 1. A depth map with all values in \<open>[0, 1]\<close> satisfies the hypothesis at
  every pixel.
\<close>

theorem layer_masks_partition:
  assumes "1 \<le> num_layers" "r < length depth_map" "c < length (depth_map ! r)"
    and "0 \<le> depth_map ! r ! c" "depth_map ! r ! c \<le> 1"
  shows "\<exists>masks k. create_layer_masks depth_map num_layers = Inr masks
           \<and> length masks = nat num_layers
           \<and> k < nat num_layers
           \<and> map (\<lambda>m. m ! r ! c) masks = (replicate (nat num_layers) 0)[k := 1]
           \<and> sum_list (map (\<lambda>m. m ! r ! c) masks) = 1"
proof -
  have n: "int (nat num_layers) = num_layers" "1 \<le> nat num_layers"
    using assms(1) by simp_all
  show ?thesis
    using partition_core[OF n(2) assms(2-5)] unfolding n(1) .
qed

theorem layer_masks_partition_witness:
  "(1::int) \<le> 3 \<and> (0::nat) < length [[0, 1/2, 1::real]]
   \<and> (1::nat) < length ([[0, 1/2, 1::real]] ! 0)
   \<and> (0::real) \<le> [[0, 1/2, 1]] ! 0 ! 1 \<and> [[0, 1/2, 1::real]] ! 0 ! 1 \<le> 1
   \<and> (\<exists>masks. create_layer_masks [[0, 1/2, 1]] 3 = Inr masks
          \<and> sum_list (map (\<lambda>m. m ! 0 ! 1) masks) = 1)"
  using layer_masks_partition [of 3 0 "[[0, 1/2, 1]]" 1] by auto

section \<open>The inpainting mask\<close>

lemma fold_max_ge:
  fixes a :: "'a::linorder"
  shows "x \<in> set xs \<Longrightarrow> x \<le> fold max xs a"
  using Max.set_eq_fold[of a xs] Max_ge[of "set (a # xs)" x] by simp

lemma in_window:
  assumes "r < length src" "c < length (src ! r)"
  shows "src ! r ! c \<in> set (window src r c)"
proof -
  have r: "r \<in> set [r - 3 ..< min (r + 4) (length src)]"
    using assms by auto
  have c: "c \<in> set [c - 3 ..< min (c + 4) (length (src ! r))]"
    using assms by auto
  have "src ! r ! c \<in> (\<lambda>c'. src ! r ! c') ` set [c - 3 ..< min (c + 4) (length (src ! r))]"
    using c by (rule imageI)
  then have "src ! r ! c \<in> set (map (\<lambda>c'. src ! r ! c') [c - 3 ..< min (c + 4) (length (src ! r))])"
    by (simp only: set_map)
  moreover have "map (\<lambda>c'. src ! r ! c') [c - 3 ..< min (c + 4) (length (src ! r))]
      \<in> set (map (\<lambda>r'. map (\<lambda>c'. src ! r' ! c') [c - 3 ..< min (c + 4) (length (src ! r'))])
                 [r - 3 ..< min (r + 4) (length src)])"
    unfolding set_map using r by (rule rev_image_eqI) simp
  ultimately show ?thesis
    unfolding window_def set_concat by (rule UN_I[rotated])
qed

lemma dilate_once_length [simp]: "length (dilate_once src) = length src"
  by (simp add: dilate_once_def)

lemma dilate_once_row_length [simp]:
  "r < length src \<Longrightarrow> length (dilate_once src ! r) = length (src ! r)"
  by (simp add: dilate_once_def)

lemma dilate_once_ge:
  assumes "r < length src" "c < length (src ! r)"
  shows "src ! r ! c \<le> dilate_once src ! r ! c"
  using assms in_window[OF assms]
  by (simp add: dilate_once_def dilate_pixel_def fold_max_ge)

lemma dilate_ge:
  assumes "r < length src" "c < length (src ! r)"
  shows "length (dilate src n) = length src
       \<and> length (dilate src n ! r) = length (src ! r)
       \<and> src ! r ! c \<le> dilate src n ! r ! c"
  unfolding dilate_def
proof (induction n)
  case 0
  show ?case by simp
next
  case (Suc n)
  let ?p = "(dilate_once ^^ n) src"
  from Suc have len: "r < length ?p" "c < length (?p ! r)" and le: "src ! r ! c \<le> ?p ! r ! c"
    using assms by simp_all
  have "?p ! r ! c \<le> dilate_once ?p ! r ! c"
    by (rule dilate_once_ge[OF len])
  with le have "src ! r ! c \<le> dilate_once ?p ! r ! c" by (rule order_trans)
  with Suc len show ?case by simp
qed

lemma mask_uint8_nth:
  "r < length fg \<Longrightarrow> c < length (fg ! r) \<Longrightarrow> mask_uint8 fg ! r ! c = (if fg ! r ! c then 255 else 0)"
  by (simp add: mask_uint8_def)

lemma word8_ge_255: "x = 255" if "(255::8 word) \<le> x"
proof -
  have "unat x < 2 ^ 8" using unsigned_less[of x, where ?'a = nat] by simp
  moreover have "255 \<le> unat x" using that by (simp add: word_le_nat_alt)
  ultimately have "unat x = unat (255::8 word)" by simp
  then show ?thesis by (simp only: word_unat_eq_iff)
qed

text \<open>
  Claim C7. The dilated inpainting mask has the shape of the hard mask and is pixel-wise
  greater than or equal to it: at every pixel position the byte of the inpainting mask is
  at least the byte of the mask before dilation, and every pixel that is set in the hard
  mask has the value 255 in the inpainting mask.
\<close>

theorem dilated_mask_covers_mask:
  assumes "r < length fg_mask" "c < length (fg_mask ! r)"
  shows "length (inpaint_mask fg_mask) = length fg_mask
       \<and> length (inpaint_mask fg_mask ! r) = length (fg_mask ! r)
       \<and> mask_uint8 fg_mask ! r ! c \<le> inpaint_mask fg_mask ! r ! c
       \<and> (fg_mask ! r ! c \<longrightarrow> inpaint_mask fg_mask ! r ! c = 255)"
proof -
  have r: "r < length (mask_uint8 fg_mask)" and c: "c < length (mask_uint8 fg_mask ! r)"
    using assms by (simp_all add: mask_uint8_def)
  note d = dilate_ge[OF r c, of 4, folded inpaint_mask_def]
  have "inpaint_mask fg_mask ! r ! c = 255" if "fg_mask ! r ! c"
    using d that assms by (simp add: mask_uint8_nth word8_ge_255)
  with d assms show ?thesis by (simp add: mask_uint8_def)
qed

theorem dilated_mask_covers_mask_witness:
  "(0::nat) < length [[False, True], [False, False]]
   \<and> (1::nat) < length ([[False, True], [False, False]] ! 0)
   \<and> [[False, True], [False, False]] ! 0 ! 1
   \<and> inpaint_mask [[False, True], [False, False]] ! 0 ! 1 = 255"
  using dilated_mask_covers_mask [of 0 "[[False, True], [False, False]]" 1] by simp

section \<open>The process entry point\<close>

text \<open>
  The failure path that is handled: when the option argument is absent and the video
  generation raises, one failure object is printed and the exit status is 1.
\<close>

lemma main_generation_failure:
  assumes "length argv = 3"
    and "generate (argv ! 1) (argv ! 2) (JStr ''right'') (JStr ''normal'') (JNum 5.0)
           (JNum 24) (JNum 3) (JStr ''none'') = Inl e"
  shows "main loads generate argv =
           \<lparr> stdout = [JObj [(''success'', JBool False), (''error'', JStr (str e))]],
             exit_code = 1 \<rparr>"
  using assms by (simp add: main_def get_def)

text \<open>
  Claim C1 describes the behaviour on a third argument that is not valid JSON: a non-zero
  exit status and one line \<open>{"success": false, "error": <message>}\<close>. The code exits with
  status 1, but \<open>json.loads\<close> on line 347 is called before the \<open>try\<close> of line 356, so the
  decode error is not caught and nothing is written to standard output.
\<close>

theorem main_malformed_json_uncaught:
  assumes "3 < length argv" "loads (argv ! 3) = Inl e"
  shows "exit_code (main loads generate argv) = 1
       \<and> stdout (main loads generate argv) = []
       \<and> stdout (main loads generate argv)
           \<noteq> [JObj [(''success'', JBool False), (''error'', JStr (str e))]]"
  using assms by (simp add: main_def uncaught_def)

theorem main_malformed_json_uncaught_witness:
  "3 < length [''depth_parallax.py'', ''in.png'', ''out.mp4'', ''{bad'']
   \<and> (\<lambda>s. Inl (JSONDecodeError ''Expecting property name enclosed in double quotes''))
        ([''depth_parallax.py'', ''in.png'', ''out.mp4'', ''{bad''] ! 3)
       = (Inl (JSONDecodeError ''Expecting property name enclosed in double quotes'')
            :: error + json)
   \<and> exit_code (main (\<lambda>s. Inl (JSONDecodeError
                                 ''Expecting property name enclosed in double quotes''))
          (\<lambda>input output direction intensity duration fps layers zoom. Inr output)
          [''depth_parallax.py'', ''in.png'', ''out.mp4'', ''{bad'']) = 1
   \<and> stdout (main (\<lambda>s. Inl (JSONDecodeError
                              ''Expecting property name enclosed in double quotes''))
          (\<lambda>input output direction intensity duration fps layers zoom. Inr output)
          [''depth_parallax.py'', ''in.png'', ''out.mp4'', ''{bad'']) = []"
  using main_malformed_json_uncaught
    [of "[''depth_parallax.py'', ''in.png'', ''out.mp4'', ''{bad'']"
        "\<lambda>s. Inl (JSONDecodeError ''Expecting property name enclosed in double quotes'')"
        "JSONDecodeError ''Expecting property name enclosed in double quotes''"
        "\<lambda>input output direction intensity duration fps layers zoom. Inr output"]
  by simp

end
